theory Spec2Isabelle
  imports Main "HOL-Library.Word"
begin

section \<open>docker-notify: the watch loop and the webhook dispatcher\<close>

text \<open>
  The program subscribes to the Docker event stream, turns every \<open>start\<close> and \<open>die\<close>
  event into a Slack-style webhook message and posts it to the configured endpoints.
  The Docker client, the HTTP transport, the JSON encoder and the process environment
  are libraries outside the repository: they are parameters of the model. Everything
  the program does to the outside world is recorded, in order, as a list of actions.
\<close>

subsection \<open>Constants\<close>

definition Start :: string where
  "Start = ''start''"

definition Die :: string where
  "Die = ''die''"

definition SlackURLEnv :: string where
  "SlackURLEnv = ''SLACK_URL''"

definition DiscordURLEnv :: string where
  "DiscordURLEnv = ''DISCORD_URL''"

definition StartColor :: string where
  "StartColor = ''#9ccc65''"

definition DieColor :: string where
  "DieColor = ''#c62828''"

subsection \<open>Data\<close>

text \<open>A Go \<open>error\<close> is identified with its message; \<open>nil\<close> is \<open>None\<close> of an option.\<close>

type_synonym go_error = string

record Config =
  SlackURL :: string
  DiscordURL :: string

record Field =
  FieldTitle :: string
  FieldValue :: string
  FieldShort :: bool

record Attachment =
  Fallback :: string
  Pretext :: string
  Color :: string
  Title :: string
  TitleLink :: string
  Text :: string
  AuthorName :: string
  AuthorLink :: string
  AuthorIcon :: string
  Footer :: string
  FooterIcon :: string
  TS :: "64 word"
  Fields :: "Field list"

record Message =
  MessageText :: string
  Attachments :: "Attachment list"

text \<open>The fields of \<open>events.Message\<close> that the program reads.\<close>

record Actor =
  ActorID :: string
  Attributes :: "string \<rightharpoonup> string"

record events_Message =
  Status :: string
  ID :: string
  From :: string
  Actor :: Actor
  Time :: "64 word"

record ContainerLogsOptions =
  Since :: string
  ShowStdout :: bool
  ShowStderr :: bool

text \<open>
  An \<open>io.Reader\<close> is given by what \<open>ioutil.ReadAll\<close> returns on it: the bytes read and
  the error, \<open>nil\<close> when the reader was read to its end.
\<close>

type_synonym Reader = "string \<times> go_error option"

definition ReadAll :: "Reader \<Rightarrow> string \<times> go_error option" where
  "ReadAll r = r"

text \<open>The Docker client: \<open>cli.ContainerLogs(ctx, id, options)\<close>.\<close>

record Client =
  ContainerLogs :: "string \<Rightarrow> ContainerLogsOptions \<Rightarrow> go_error + Reader"

record Response =
  StatusCode :: int

text \<open>\<open>json.Marshal\<close> and \<open>http.Post(url, contentType, body)\<close>.\<close>

record World =
  json_Marshal :: "Message \<Rightarrow> go_error + string"
  http_Post :: "string \<Rightarrow> string \<Rightarrow> string \<Rightarrow> go_error + Response"

text \<open>
  The observable actions: a line written by \<open>log.Println\<close>, \<open>log.Fatal\<close> (which also
  exits), the construction of the Docker client for a protocol version, the opening of
  an event subscription, the cancelling of its context, the start of a goroutine running
  \<open>m.Send(config)\<close>, and an HTTP POST of a body to a URL with a content type.
\<close>

datatype action =
    Log string
  | Fatal string
  | NewClient string
  | Subscribe
  | Cancel
  | Go Message Config
  | HttpPost string string string

text \<open>
  What \<open>select\<close> delivers in one iteration of the streaming loop: a message from the
  event channel or a value from the error channel.
\<close>

datatype select_item =
    MsgRecv events_Message
  | ErrRecv "go_error option"

text \<open>
  Where the process is when the observed prefix of the event source ends: exited with a
  code, about to open a subscription, or waiting in \<open>select\<close>.
\<close>

datatype status =
    Exited int
  | Connecting
  | Streaming

subsection \<open>Configuration\<close>

text \<open>The environment is \<open>os.Getenv\<close>: the value of a variable, empty when it is not set.\<close>

definition NewConfig :: "(string \<Rightarrow> string) \<Rightarrow> go_error + Config" where
  "NewConfig getenv =
     (let slackURL = getenv SlackURLEnv;
          discordURL = getenv DiscordURLEnv
      in if slackURL = '''' \<and> discordURL = ''''
         then Inl (SlackURLEnv @ '' and/or '' @ DiscordURLEnv @ '' must be set'')
         else Inr \<lparr>SlackURL = slackURL, DiscordURL = discordURL\<rparr>)"

subsection \<open>The classifier\<close>

definition makeStartMessage :: "events_Message \<Rightarrow> go_error + Message" where
  "makeStartMessage msg =
     (case Attributes (Actor msg) ''name'' of
        None \<Rightarrow> Inl ''no name''
      | Some name \<Rightarrow>
          Inr \<lparr>MessageText = '''',
               Attachments =
                 [\<lparr>Fallback = '''', Pretext = '''', Color = StartColor,
                   Title = ''Container started. name => '' @ name @ '' image => '' @ From msg,
                   TitleLink = '''', Text = '''', AuthorName = '''', AuthorLink = '''',
                   AuthorIcon = '''', Footer = '''', FooterIcon = '''',
                   TS = Time msg, Fields = []\<rparr>]\<rparr>)"

definition makeDieMessage :: "events_Message \<Rightarrow> Reader \<Rightarrow> go_error + Message" where
  "makeDieMessage msg logReder =
     (case Attributes (Actor msg) ''exitCode'' of
        None \<Rightarrow> Inl ''no exitCode''
      | Some exitCode \<Rightarrow>
         (case Attributes (Actor msg) ''name'' of
            None \<Rightarrow> Inl ''no name''
          | Some name \<Rightarrow>
             (case ReadAll logReder of
                (b, Some err) \<Rightarrow> Inl err
              | (b, None) \<Rightarrow>
                  Inr \<lparr>MessageText = '''',
                       Attachments =
                         [\<lparr>Fallback = '''', Pretext = '''', Color = DieColor,
                           Title = ''Container died. name => '' @ name @ '' image => ''
                                   @ From msg @ '' status code => '' @ exitCode,
                           TitleLink = '''', Text = ''```'' @ b @ ''```'',
                           AuthorName = '''', AuthorLink = '''', AuthorIcon = '''',
                           Footer = '''', FooterIcon = '''',
                           TS = Time msg, Fields = []\<rparr>]\<rparr>)))"

subsection \<open>The dispatcher\<close>

text \<open>
  \<open>post\<close> returns the actions it performed and its error. Closing the response body
  has no effect that the model observes.
\<close>

definition post :: "World \<Rightarrow> string \<Rightarrow> string \<Rightarrow> action list \<times> go_error option" where
  "post w u body =
     (case http_Post w u ''application/json'' body of
        Inl err \<Rightarrow> ([HttpPost u ''application/json'' body], Some err)
      | Inr resp \<Rightarrow> ([HttpPost u ''application/json'' body], None))"

definition Send :: "World \<Rightarrow> Message \<Rightarrow> Config \<Rightarrow> action list" where
  "Send w m config =
     (case json_Marshal w m of
        Inl err \<Rightarrow> [Log err]
      | Inr b \<Rightarrow>
         (case (if SlackURL config \<noteq> '''' then post w (SlackURL config) b else ([], None)) of
            (as1, Some err) \<Rightarrow> as1 @ [Log err]
          | (as1, None) \<Rightarrow>
             (case (if DiscordURL config \<noteq> '''' then post w (DiscordURL config) b
                    else ([], None)) of
                (as2, Some err) \<Rightarrow> as1 @ as2 @ [Log err]
              | (as2, None) \<Rightarrow> as1 @ as2)))"

subsection \<open>The watch loop\<close>

text \<open>The body of the \<open>case msg := <-msgChan\<close> arm of \<open>start\<close>.\<close>

definition handle_msg :: "Client \<Rightarrow> Config \<Rightarrow> events_Message \<Rightarrow> action list" where
  "handle_msg cli config msg =
     (if Status msg = Start then
        (case makeStartMessage msg of
           Inl err \<Rightarrow> [Log err]
         | Inr m \<Rightarrow> [Go m config])
      else if Status msg = Die then
        (case ContainerLogs cli (ID msg)
                \<lparr>Since = ''30s'', ShowStdout = True, ShowStderr = True\<rparr> of
           Inl err \<Rightarrow> [Log err]
         | Inr reader \<Rightarrow>
            (case makeDieMessage msg reader of
               Inl err \<Rightarrow> [Log err]
             | Inr m \<Rightarrow> [Go m config]))
      else [])"

text \<open>
  The loop labelled \<open>L\<close>, run on what \<open>select\<close> delivers. It leaves the loop at the
  first value from the error channel, with that value; what comes after it in the
  stream is not read. When the stream is used up the loop waits in \<open>select\<close>: it has
  not returned, which is \<open>None\<close>.
\<close>

fun stream_loop :: "Client \<Rightarrow> Config \<Rightarrow> select_item list
                    \<Rightarrow> action list \<times> go_error option option" where
  "stream_loop cli config [] = ([], None)"
| "stream_loop cli config (MsgRecv msg # rest) =
     (case stream_loop cli config rest of
        (as, r) \<Rightarrow> (handle_msg cli config msg @ as, r))"
| "stream_loop cli config (ErrRecv err # rest) = ([], Some err)"

text \<open>
  \<open>start\<close>: open the subscription, run the loop, and on return run the deferred
  \<open>cancel()\<close>.
\<close>

definition start :: "Client \<Rightarrow> Config \<Rightarrow> select_item list
                     \<Rightarrow> action list \<times> go_error option option" where
  "start cli config items =
     (case stream_loop cli config items of
        (as, None) \<Rightarrow> (Subscribe # as, None)
      | (as, Some err) \<Rightarrow> (Subscribe # as @ [Cancel], Some err))"

text \<open>
  The \<open>for\<close> loop of \<open>main\<close>. The event source is the list of the streams that the
  successive subscriptions deliver; the loop is followed for as long as that list
  lasts.
\<close>

fun main_loop :: "Client \<Rightarrow> Config \<Rightarrow> select_item list list \<Rightarrow> action list \<times> status" where
  "main_loop cli config [] = ([], Connecting)"
| "main_loop cli config (items # subs) =
     (case start cli config items of
        (as, None) \<Rightarrow> (as, Streaming)
      | (as, Some err) \<Rightarrow>
         (case main_loop cli config subs of
            (as', st) \<Rightarrow>
              (as @ (case err of None \<Rightarrow> [] | Some e \<Rightarrow> [Log e]) @ as', st)))"

text \<open>
  \<open>main\<close>, given \<open>os.Getenv\<close>, \<open>client.NewClientWithOpts(client.WithVersion(v))\<close> as a
  function of \<open>v\<close>, and the event source.
\<close>

definition main :: "(string \<Rightarrow> string) \<Rightarrow> (string \<Rightarrow> go_error + Client)
                    \<Rightarrow> select_item list list \<Rightarrow> action list \<times> status" where
  "main getenv NewClientWithOpts subs =
     (let apiVersion = getenv ''API_VERSION''
      in if apiVersion = ''''
         then ([Fatal ''API_VERSION must be set as your docker api version''], Exited 1)
         else
          (case NewConfig getenv of
             Inl err \<Rightarrow> ([Fatal err], Exited 1)
           | Inr config \<Rightarrow>
              (case NewClientWithOpts apiVersion of
                 Inl err \<Rightarrow> ([NewClient apiVersion, Fatal err], Exited 1)
               | Inr cli \<Rightarrow>
                  (case main_loop cli config subs of
                     (as, st) \<Rightarrow> (NewClient apiVersion # as, st)))))"

subsection \<open>Concrete inputs\<close>

text \<open>The events, clients, transports and environments at which the theorems are evaluated.\<close>

definition event_of :: "string \<Rightarrow> (string \<rightharpoonup> string) \<Rightarrow> 64 word \<Rightarrow> events_Message" where
  "event_of st attrs t =
     \<lparr>Status = st, ID = ''4c01db0b339c'', From = ''nginx:latest'',
      Actor = \<lparr>ActorID = ''4c01db0b339c'', Attributes = attrs\<rparr>, Time = t\<rparr>"

definition web1_start :: events_Message where
  "web1_start = event_of ''start'' [''name'' \<mapsto> ''web1''] 1000"

definition web1_die :: events_Message where
  "web1_die = event_of ''die'' [''name'' \<mapsto> ''web1'', ''exitCode'' \<mapsto> ''137''] 2000"

definition nameless_start :: events_Message where
  "nameless_start = event_of ''start'' Map.empty 1000"

definition web1_pause :: events_Message where
  "web1_pause = event_of ''pause'' [''name'' \<mapsto> ''web1''] 1500"

definition both_sinks :: Config where
  "both_sinks = \<lparr>SlackURL = ''http://slack.test/hook'', DiscordURL = ''http://discord.test/hook''\<rparr>"

text \<open>A client whose \<open>ContainerLogs\<close> answers every request with the given result.\<close>

definition logs_client :: "go_error + Reader \<Rightarrow> Client" where
  "logs_client r = \<lparr>ContainerLogs = (\<lambda>id opts. r)\<rparr>"

text \<open>
  A transport that refuses the connection to the listed URLs and answers every other
  request with the given status code, and an encoder that always succeeds.
\<close>

definition fake_world :: "string list \<Rightarrow> int \<Rightarrow> World" where
  "fake_world down code =
     \<lparr>json_Marshal = (\<lambda>m. Inr ''{}''),
      http_Post = (\<lambda>u ct body. if u \<in> set down then Inl ''connection refused''
                                 else Inr \<lparr>StatusCode = code\<rparr>)\<rparr>"

definition env_of :: "string \<Rightarrow> string \<Rightarrow> string \<Rightarrow> string \<Rightarrow> string" where
  "env_of api slack discord k =
     (if k = ''API_VERSION'' then api
      else if k = ''SLACK_URL'' then slack
      else if k = ''DISCORD_URL'' then discord
      else '''')"

text \<open>The payload that \<open>makeStartMessage\<close> builds for \<open>web1_start\<close>.\<close>

definition web1_started :: Message where
  "web1_started =
     \<lparr>MessageText = '''',
      Attachments =
        [\<lparr>Fallback = '''', Pretext = '''', Color = ''#9ccc65'',
          Title = ''Container started. name => web1 image => nginx:latest'',
          TitleLink = '''', Text = '''', AuthorName = '''', AuthorLink = '''',
          AuthorIcon = '''', Footer = '''', FooterIcon = '''',
          TS = 1000, Fields = []\<rparr>]\<rparr>"

text \<open>
  The payload that \<open>makeDieMessage\<close> builds for \<open>web1_die\<close> when the logs read
  \<open>oom-killed\<close>.
\<close>

definition web1_died :: Message where
  "web1_died =
     \<lparr>MessageText = '''',
      Attachments =
        [\<lparr>Fallback = '''', Pretext = '''', Color = ''#c62828'',
          Title = ''Container died. name => web1 image => nginx:latest status code => 137'',
          TitleLink = '''', Text = ''```oom-killed```'',
          AuthorName = '''', AuthorLink = '''', AuthorIcon = '''',
          Footer = '''', FooterIcon = '''',
          TS = 2000, Fields = []\<rparr>]\<rparr>"

section \<open>Properties\<close>

subsection \<open>The streaming loop over a run of messages\<close>

text \<open>
  A run of messages is handled in order; the loop then goes on with the rest of the
  stream.
\<close>

lemma stream_loop_msgs:
  "stream_loop cli config (map MsgRecv msgs @ rest) =
     (concat (map (handle_msg cli config) msgs) @ fst (stream_loop cli config rest),
      snd (stream_loop cli config rest))"
  by (induction msgs) (simp_all add: case_prod_unfold)

text \<open>The message arm only writes log lines and starts \<open>Send\<close> goroutines.\<close>

lemma handle_msg_actions:
  "a \<in> set (handle_msg cli config msg) \<Longrightarrow> (\<exists>e. a = Log e) \<or> (\<exists>m. a = Go m config)"
  by (auto simp: handle_msg_def split: if_splits sum.splits)

lemma stream_loop_actions:
  "a \<in> set (fst (stream_loop cli config items)) \<Longrightarrow> (\<exists>e. a = Log e) \<or> (\<exists>m. a = Go m config)"
proof (induction cli config items rule: stream_loop.induct)
  case (2 cli config msg rest)
  then show ?case
    by (auto simp: case_prod_unfold dest: handle_msg_actions)
qed simp_all

lemma start_no_Fatal: "Fatal s \<notin> set (fst (start cli config items))"
  using stream_loop_actions[of "Fatal s" cli config items]
  by (auto simp: start_def split: prod.splits option.splits)

lemma main_loop_no_Fatal: "Fatal s \<notin> set (fst (main_loop cli config subs))"
proof (induction subs)
  case Nil
  show ?case by simp
next
  case (Cons items subs)
  have "Fatal s \<notin> set (fst (start cli config items))" by (rule start_no_Fatal)
  with Cons show ?case
    by (auto split: prod.splits option.splits)
qed

lemma main_loop_status: "snd (main_loop cli config subs) \<in> {Connecting, Streaming}"
  by (induction subs) (auto split: prod.splits option.splits)

lemma Send_no_Fatal: "Fatal s \<notin> set (Send w m config)"
  by (auto simp: Send_def post_def split: sum.splits prod.splits option.splits if_splits)

subsection \<open>The classifier\<close>

text \<open>
  C4. For every start event whose attributes contain \<open>name\<close>, \<open>makeStartMessage\<close>
  succeeds, and its payload has exactly one attachment: the color is \<open>#9ccc65\<close>, the
  title is \<open>Container started. name => <name> image => <from>\<close>, \<open>TS\<close> is the time of
  the event and the body text is empty. (The function does not look at the status, so
  this holds of any event with a name.)
\<close>

theorem makeStartMessage_named:
  assumes "Attributes (Actor msg) ''name'' = Some name"
  shows "makeStartMessage msg =
           Inr \<lparr>MessageText = '''',
                Attachments =
                  [\<lparr>Fallback = '''', Pretext = '''', Color = ''#9ccc65'',
                    Title = ''Container started. name => '' @ name @ '' image => '' @ From msg,
                    TitleLink = '''', Text = '''', AuthorName = '''', AuthorLink = '''',
                    AuthorIcon = '''', Footer = '''', FooterIcon = '''',
                    TS = Time msg, Fields = []\<rparr>]\<rparr>"
  using assms by (simp add: makeStartMessage_def StartColor_def)

text \<open>The first end-to-end scenario of the specification.\<close>

theorem makeStartMessage_named_witness:
  "Attributes (Actor web1_start) ''name'' = Some ''web1'' \<and>
   makeStartMessage web1_start =
     Inr \<lparr>MessageText = '''',
          Attachments =
            [\<lparr>Fallback = '''', Pretext = '''', Color = ''#9ccc65'',
              Title = ''Container started. name => web1 image => nginx:latest'',
              TitleLink = '''', Text = '''', AuthorName = '''', AuthorLink = '''',
              AuthorIcon = '''', Footer = '''', FooterIcon = '''',
              TS = 1000, Fields = []\<rparr>]\<rparr>"
proof -
  have h: "Attributes (Actor web1_start) ''name'' = Some ''web1''"
    by (simp add: web1_start_def event_of_def)
  show ?thesis
    using h makeStartMessage_named [OF h] by (simp add: web1_start_def event_of_def)
qed

text \<open>
  C3. For every die event whose attributes contain \<open>name\<close> and \<open>exitCode\<close>, and
  every log content \<open>L\<close> that reading the log reader returns without error,
  \<open>makeDieMessage\<close> succeeds, and its payload has exactly one attachment: the color is
  \<open>#c62828\<close>, the title is
  \<open>Container died. name => <name> image => <from> status code => <exitCode>\<close>, \<open>TS\<close> is
  the time of the event and the text is \<open>L\<close> between two \<open>```\<close> markers.
\<close>

theorem makeDieMessage_with_logs:
  assumes "Attributes (Actor msg) ''name'' = Some name"
    and "Attributes (Actor msg) ''exitCode'' = Some exitCode"
    and "ReadAll logReder = (L, None)"
  shows "makeDieMessage msg logReder =
           Inr \<lparr>MessageText = '''',
                Attachments =
                  [\<lparr>Fallback = '''', Pretext = '''', Color = ''#c62828'',
                    Title = ''Container died. name => '' @ name @ '' image => '' @ From msg
                            @ '' status code => '' @ exitCode,
                    TitleLink = '''', Text = ''```'' @ L @ ''```'',
                    AuthorName = '''', AuthorLink = '''', AuthorIcon = '''',
                    Footer = '''', FooterIcon = '''',
                    TS = Time msg, Fields = []\<rparr>]\<rparr>"
  using assms by (simp add: makeDieMessage_def DieColor_def)

text \<open>The second end-to-end scenario of the specification.\<close>

theorem makeDieMessage_with_logs_witness:
  "Attributes (Actor web1_die) ''name'' = Some ''web1'' \<and>
   Attributes (Actor web1_die) ''exitCode'' = Some ''137'' \<and>
   ReadAll (''oom-killed'', None) = (''oom-killed'', None) \<and>
   makeDieMessage web1_die (''oom-killed'', None) =
     Inr \<lparr>MessageText = '''',
          Attachments =
            [\<lparr>Fallback = '''', Pretext = '''', Color = ''#c62828'',
              Title = ''Container died. name => web1 image => nginx:latest status code => 137'',
              TitleLink = '''', Text = ''```oom-killed```'',
              AuthorName = '''', AuthorLink = '''', AuthorIcon = '''',
              Footer = '''', FooterIcon = '''',
              TS = 2000, Fields = []\<rparr>]\<rparr>"
proof -
  have h1: "Attributes (Actor web1_die) ''name'' = Some ''web1''"
    by (simp add: web1_die_def event_of_def)
  have h2: "Attributes (Actor web1_die) ''exitCode'' = Some ''137''"
    by (simp add: web1_die_def event_of_def)
  have h3: "ReadAll (''oom-killed'', None) = (''oom-killed'', None)"
    by (simp add: ReadAll_def)
  show ?thesis
    using h1 h2 h3 makeDieMessage_with_logs [OF h1 h2 h3]
    by (simp add: web1_die_def event_of_def)
qed

text \<open>
  C5. For every start event whose attributes do not contain \<open>name\<close>,
  \<open>makeStartMessage\<close> fails with the error \<open>no name\<close> and gives no payload; the watch
  loop writes the error to the log, starts no \<open>Send\<close> for the event, and goes on with
  the events that follow.
\<close>

theorem start_without_name_dropped:
  assumes "Status msg = ''start''"
    and "Attributes (Actor msg) ''name'' = None"
  shows "makeStartMessage msg = Inl ''no name''
       \<and> handle_msg cli config msg = [Log ''no name'']
       \<and> stream_loop cli config (map MsgRecv before @ MsgRecv msg # rest) =
           (concat (map (handle_msg cli config) before) @ Log ''no name''
              # fst (stream_loop cli config rest),
            snd (stream_loop cli config rest))"
proof -
  have m: "makeStartMessage msg = Inl ''no name''"
    using assms(2) by (simp add: makeStartMessage_def)
  have h: "handle_msg cli config msg = [Log ''no name'']"
    using assms(1) m by (simp add: handle_msg_def Start_def)
  have "stream_loop cli config (MsgRecv msg # rest) =
          (Log ''no name'' # fst (stream_loop cli config rest),
           snd (stream_loop cli config rest))"
    using h by (simp add: case_prod_unfold)
  then have "stream_loop cli config (map MsgRecv before @ MsgRecv msg # rest) =
           (concat (map (handle_msg cli config) before) @ Log ''no name''
              # fst (stream_loop cli config rest),
            snd (stream_loop cli config rest))"
    by (simp add: stream_loop_msgs)
  with m h show ?thesis by simp
qed

text \<open>A nameless start event followed by a named one: the second is still handled.\<close>

theorem start_without_name_dropped_witness:
  "Status nameless_start = ''start'' \<and>
   Attributes (Actor nameless_start) ''name'' = None \<and>
   makeStartMessage nameless_start = Inl ''no name'' \<and>
   stream_loop (logs_client (Inl ''No such container'')) both_sinks
     [MsgRecv nameless_start, MsgRecv web1_start, ErrRecv (Some ''EOF'')] =
     ([Log ''no name'',
       Go \<lparr>MessageText = '''',
           Attachments =
            [\<lparr>Fallback = '''', Pretext = '''', Color = ''#9ccc65'',
              Title = ''Container started. name => web1 image => nginx:latest'',
              TitleLink = '''', Text = '''', AuthorName = '''', AuthorLink = '''',
              AuthorIcon = '''', Footer = '''', FooterIcon = '''',
              TS = 1000, Fields = []\<rparr>]\<rparr> both_sinks],
      Some (Some ''EOF''))"
proof -
  have h1: "Status nameless_start = ''start''"
    by (simp add: nameless_start_def event_of_def)
  have h2: "Attributes (Actor nameless_start) ''name'' = None"
    by (simp add: nameless_start_def event_of_def)
  have r: "stream_loop (logs_client (Inl ''No such container'')) both_sinks
             [MsgRecv web1_start, ErrRecv (Some ''EOF'')] =
           ([Go \<lparr>MessageText = '''',
               Attachments =
                [\<lparr>Fallback = '''', Pretext = '''', Color = ''#9ccc65'',
                  Title = ''Container started. name => web1 image => nginx:latest'',
                  TitleLink = '''', Text = '''', AuthorName = '''', AuthorLink = '''',
                  AuthorIcon = '''', Footer = '''', FooterIcon = '''',
                  TS = 1000, Fields = []\<rparr>]\<rparr> both_sinks],
            Some (Some ''EOF''))"
    by (simp add: handle_msg_def makeStartMessage_def web1_start_def event_of_def
        Start_def StartColor_def)
  show ?thesis
    using h1 h2 r
      start_without_name_dropped [OF h1 h2, of "logs_client (Inl ''No such container'')"
        both_sinks "[]" "[MsgRecv web1_start, ErrRecv (Some ''EOF'')]"]
    by simp
qed

subsection \<open>The watch loop\<close>

text \<open>
  A message that the message arm answers with no action can be taken out of the stream:
  the loop, \<open>start\<close> and the outer loop do the same with and without it.
\<close>

lemma stream_loop_skip:
  "handle_msg cli config msg = [] \<Longrightarrow>
   stream_loop cli config (before @ MsgRecv msg # rest) = stream_loop cli config (before @ rest)"
proof (induction cli config before rule: stream_loop.induct)
  case (1 cli config)
  then show ?case by (simp add: case_prod_unfold)
next
  case (2 cli config m items)
  then show ?case by simp
next
  case (3 cli config err items)
  show ?case by simp
qed

lemma main_loop_cong_start:
  "start cli config items = start cli config items' \<Longrightarrow>
   main_loop cli config (subs @ items # subs') = main_loop cli config (subs @ items' # subs')"
  by (induction subs) simp_all

text \<open>
  C6. For every event whose status is neither \<open>start\<close> nor \<open>die\<close>, the message arm
  does nothing: no payload, no \<open>Send\<close>, no log line. The streaming loop, \<open>start\<close> and
  the outer loop behave on a source that delivers the event exactly as on the same source
  without it.
\<close>

theorem other_status_ignored:
  assumes "Status msg \<noteq> ''start''"
    and "Status msg \<noteq> ''die''"
  shows "handle_msg cli config msg = []
       \<and> stream_loop cli config (before @ MsgRecv msg # rest) =
           stream_loop cli config (before @ rest)
       \<and> start cli config (before @ MsgRecv msg # rest) = start cli config (before @ rest)
       \<and> main_loop cli config (subs @ (before @ MsgRecv msg # rest) # subs') =
           main_loop cli config (subs @ (before @ rest) # subs')"
proof -
  have h: "handle_msg cli config msg = []"
    using assms by (simp add: handle_msg_def Start_def Die_def)
  have l: "stream_loop cli config (before @ MsgRecv msg # rest) =
           stream_loop cli config (before @ rest)"
    using h by (rule stream_loop_skip)
  have s: "start cli config (before @ MsgRecv msg # rest) = start cli config (before @ rest)"
    by (simp add: start_def l)
  have "main_loop cli config (subs @ (before @ MsgRecv msg # rest) # subs') =
        main_loop cli config (subs @ (before @ rest) # subs')"
    using s by (rule main_loop_cong_start)
  with h l s show ?thesis by simp
qed

text \<open>
  A \<open>pause\<close> event between a start event and the end of the stream leaves no trace.
\<close>

theorem other_status_ignored_witness:
  "Status web1_pause \<noteq> ''start'' \<and> Status web1_pause \<noteq> ''die'' \<and>
   handle_msg (logs_client (Inl ''No such container'')) both_sinks web1_pause = [] \<and>
   main_loop (logs_client (Inl ''No such container'')) both_sinks
     [[MsgRecv web1_start, MsgRecv web1_pause, ErrRecv None]] =
   ([Subscribe, Go web1_started both_sinks, Cancel], Connecting)"
proof -
  have h1: "Status web1_pause \<noteq> ''start''"
    by (simp add: web1_pause_def event_of_def)
  have h2: "Status web1_pause \<noteq> ''die''"
    by (simp add: web1_pause_def event_of_def)
  have r: "main_loop (logs_client (Inl ''No such container'')) both_sinks
             [[MsgRecv web1_start, ErrRecv None]] =
           ([Subscribe, Go web1_started both_sinks, Cancel], Connecting)"
    by (simp add: start_def handle_msg_def makeStartMessage_def web1_start_def event_of_def
        web1_started_def Start_def StartColor_def)
  show ?thesis
    using h1 h2 r
      other_status_ignored [OF h1 h2, of "logs_client (Inl ''No such container'')" both_sinks
        "[MsgRecv web1_start]" "[ErrRecv None]" "[]" "[]"]
    by simp
qed

text \<open>
  The specification asks that a die event with \<open>name\<close> and \<open>exitCode\<close> still gives a
  payload, with empty body text, when the logs cannot be fetched. The program does
  otherwise, in both ways the fetch can fail: when \<open>ContainerLogs\<close> returns an error and
  when reading the log reader returns one, the event is answered with a log line only.
\<close>

theorem die_log_failure_counterexample:
  "Status web1_die = ''die''
   \<and> Attributes (Actor web1_die) ''name'' = Some ''web1''
   \<and> Attributes (Actor web1_die) ''exitCode'' = Some ''137''
   \<and> handle_msg (logs_client (Inl ''No such container'')) both_sinks web1_die =
       [Log ''No such container'']
   \<and> handle_msg (logs_client (Inr ('''', Some ''unexpected EOF''))) both_sinks web1_die =
       [Log ''unexpected EOF'']"
  by (simp add: handle_msg_def makeDieMessage_def ReadAll_def logs_client_def web1_die_def
      event_of_def Start_def Die_def)

text \<open>
  C2, as the program has it. For every die event with \<open>name\<close> and \<open>exitCode\<close>
  present, if fetching the container logs fails (obtaining the log reader fails, or
  reading from it fails), the error is written to the log, no payload is produced and no
  \<open>Send\<close> is started for the event, and the loop goes on with the events that follow.
\<close>

theorem die_log_failure_drops_event:
  assumes "Status msg = ''die''"
    and "Attributes (Actor msg) ''name'' = Some name"
    and "Attributes (Actor msg) ''exitCode'' = Some exitCode"
    and "ContainerLogs cli (ID msg) \<lparr>Since = ''30s'', ShowStdout = True, ShowStderr = True\<rparr>
           = Inl err
         \<or> (\<exists>reader b.
              ContainerLogs cli (ID msg) \<lparr>Since = ''30s'', ShowStdout = True, ShowStderr = True\<rparr>
                = Inr reader
              \<and> ReadAll reader = (b, Some err))"
  shows "handle_msg cli config msg = [Log err]
       \<and> stream_loop cli config (MsgRecv msg # rest) =
           (Log err # fst (stream_loop cli config rest), snd (stream_loop cli config rest))"
proof -
  have h: "handle_msg cli config msg = [Log err]"
    using assms by (auto simp: handle_msg_def makeDieMessage_def Start_def Die_def)
  then show ?thesis by (simp add: case_prod_unfold)
qed

text \<open>
  A die event whose log reader fails, followed by a start event: one log line, then the
  notification of the start event.
\<close>

theorem die_log_failure_drops_event_witness:
  "Status web1_die = ''die''
   \<and> Attributes (Actor web1_die) ''name'' = Some ''web1''
   \<and> Attributes (Actor web1_die) ''exitCode'' = Some ''137''
   \<and> ContainerLogs (logs_client (Inr ('''', Some ''unexpected EOF''))) (ID web1_die)
        \<lparr>Since = ''30s'', ShowStdout = True, ShowStderr = True\<rparr>
       = Inr ('''', Some ''unexpected EOF'')
   \<and> ReadAll ('''', Some ''unexpected EOF'') = ('''', Some ''unexpected EOF'')
   \<and> stream_loop (logs_client (Inr ('''', Some ''unexpected EOF''))) both_sinks
        [MsgRecv web1_die, MsgRecv web1_start] =
       ([Log ''unexpected EOF'', Go web1_started both_sinks], None)"
proof -
  have h1: "Status web1_die = ''die''"
    by (simp add: web1_die_def event_of_def)
  have h2: "Attributes (Actor web1_die) ''name'' = Some ''web1''"
    by (simp add: web1_die_def event_of_def)
  have h3: "Attributes (Actor web1_die) ''exitCode'' = Some ''137''"
    by (simp add: web1_die_def event_of_def)
  have c: "ContainerLogs (logs_client (Inr ('''', Some ''unexpected EOF''))) (ID web1_die)
        \<lparr>Since = ''30s'', ShowStdout = True, ShowStderr = True\<rparr>
       = Inr ('''', Some ''unexpected EOF'')"
    by (simp add: logs_client_def)
  have r: "ReadAll ('''', Some ''unexpected EOF'') = ('''', Some ''unexpected EOF'')"
    by (simp add: ReadAll_def)
  have h4: "ContainerLogs (logs_client (Inr ('''', Some ''unexpected EOF''))) (ID web1_die)
              \<lparr>Since = ''30s'', ShowStdout = True, ShowStderr = True\<rparr> = Inl ''unexpected EOF''
         \<or> (\<exists>reader b.
              ContainerLogs (logs_client (Inr ('''', Some ''unexpected EOF''))) (ID web1_die)
                \<lparr>Since = ''30s'', ShowStdout = True, ShowStderr = True\<rparr> = Inr reader
              \<and> ReadAll reader = (b, Some ''unexpected EOF''))"
    using c r by blast
  have t: "stream_loop (logs_client (Inr ('''', Some ''unexpected EOF''))) both_sinks
             [MsgRecv web1_start] = ([Go web1_started both_sinks], None)"
    by (simp add: handle_msg_def makeStartMessage_def web1_start_def event_of_def
        web1_started_def Start_def StartColor_def)
  show ?thesis
    using h1 h2 h3 c r t
      die_log_failure_drops_event [OF h1 h2 h3 h4, of both_sinks "[MsgRecv web1_start]"]
    by simp
qed

text \<open>
  What the message arm and \<open>Send\<close> do with an error: a line in the log.
\<close>

lemma start_msgs_then_error:
  "start cli config (map MsgRecv msgs @ ErrRecv err # rest) =
     (Subscribe # concat (map (handle_msg cli config) msgs) @ [Cancel], Some err)"
  by (simp add: start_def stream_loop_msgs)

lemma main_loop_starts_with_Subscribe:
  "\<exists>as. fst (main_loop cli config (items # subs)) = Subscribe # as"
  by (auto simp: start_def split: prod.splits option.splits)

lemma Send_logs_failed_post:
  "json_Marshal w m = Inr b \<Longrightarrow>
   HttpPost u ''application/json'' b \<in> set (Send w m config) \<Longrightarrow>
   http_Post w u ''application/json'' b = Inl e \<Longrightarrow> Log e \<in> set (Send w m config)"
  by (auto simp: Send_def post_def split: sum.splits if_splits)

lemma handle_msg_logs_start_error:
  "Status msg = ''start'' \<Longrightarrow> makeStartMessage msg = Inl e \<Longrightarrow>
   handle_msg cli config msg = [Log e]"
  by (simp add: handle_msg_def Start_def)

lemma handle_msg_logs_die_error:
  "Status msg = ''die'' \<Longrightarrow>
   ContainerLogs cli (ID msg) \<lparr>Since = ''30s'', ShowStdout = True, ShowStderr = True\<rparr>
     = Inr reader \<Longrightarrow>
   makeDieMessage msg reader = Inl e \<Longrightarrow> handle_msg cli config msg = [Log e]"
  by (simp add: handle_msg_def Start_def Die_def)

text \<open>
  C8. When the error channel delivers a value, \<open>start\<close> leaves the streaming loop,
  cancels the context of the subscription and returns that value, whatever happened to
  the messages before it. The outer loop logs the value when it is not \<open>nil\<close> and goes
  round again: its next action, when the source is asked once more, is to open a
  subscription. The loop never exits the process: it is always about to subscribe or
  waiting in \<open>select\<close>, and neither it nor \<open>Send\<close> ever calls \<open>log.Fatal\<close>. An error of
  the classifier (for a start or a die event) is answered with a log line and nothing
  else, and a failed POST of \<open>Send\<close> is logged inside \<open>Send\<close>.
\<close>

theorem error_channel_reopens_subscription:
  "start cli config (map MsgRecv msgs @ ErrRecv err # rest) =
     (Subscribe # concat (map (handle_msg cli config) msgs) @ [Cancel], Some err)
   \<and> main_loop cli config ((map MsgRecv msgs @ ErrRecv err # rest) # subs) =
       (Subscribe # concat (map (handle_msg cli config) msgs) @ [Cancel]
          @ (case err of None \<Rightarrow> [] | Some e \<Rightarrow> [Log e])
          @ fst (main_loop cli config subs),
        snd (main_loop cli config subs))
   \<and> (\<exists>as. fst (main_loop cli config (items # subs')) = Subscribe # as)
   \<and> snd (main_loop cli config subs) \<in> {Connecting, Streaming}
   \<and> (\<forall>s. Fatal s \<notin> set (fst (main_loop cli config subs)))
   \<and> (\<forall>s. Fatal s \<notin> set (Send w m config))
   \<and> (Status msg = ''start'' \<and> makeStartMessage msg = Inl e \<longrightarrow>
        handle_msg cli config msg = [Log e])
   \<and> (Status msg = ''die''
        \<and> ContainerLogs cli (ID msg) \<lparr>Since = ''30s'', ShowStdout = True, ShowStderr = True\<rparr>
            = Inr reader
        \<and> makeDieMessage msg reader = Inl e \<longrightarrow>
        handle_msg cli config msg = [Log e])
   \<and> (json_Marshal w m = Inr b
        \<and> HttpPost u ''application/json'' b \<in> set (Send w m config)
        \<and> http_Post w u ''application/json'' b = Inl e \<longrightarrow>
        Log e \<in> set (Send w m config))"
proof -
  have s: "start cli config (map MsgRecv msgs @ ErrRecv err # rest) =
     (Subscribe # concat (map (handle_msg cli config) msgs) @ [Cancel], Some err)"
    by (rule start_msgs_then_error)
  have l: "main_loop cli config ((map MsgRecv msgs @ ErrRecv err # rest) # subs) =
       (Subscribe # concat (map (handle_msg cli config) msgs) @ [Cancel]
          @ (case err of None \<Rightarrow> [] | Some e \<Rightarrow> [Log e])
          @ fst (main_loop cli config subs),
        snd (main_loop cli config subs))"
    by (simp add: s case_prod_unfold)
  have n: "\<exists>as. fst (main_loop cli config (items # subs')) = Subscribe # as"
    by (rule main_loop_starts_with_Subscribe)
  have st: "snd (main_loop cli config subs) \<in> {Connecting, Streaming}"
    by (rule main_loop_status)
  have f1: "\<forall>s. Fatal s \<notin> set (fst (main_loop cli config subs))"
    by (simp add: main_loop_no_Fatal)
  have f2: "\<forall>s. Fatal s \<notin> set (Send w m config)"
    by (simp add: Send_no_Fatal)
  have c1: "Status msg = ''start'' \<and> makeStartMessage msg = Inl e \<longrightarrow>
        handle_msg cli config msg = [Log e]"
    using handle_msg_logs_start_error [of msg e cli config] by blast
  have c2: "Status msg = ''die''
        \<and> ContainerLogs cli (ID msg) \<lparr>Since = ''30s'', ShowStdout = True, ShowStderr = True\<rparr>
            = Inr reader
        \<and> makeDieMessage msg reader = Inl e \<longrightarrow>
        handle_msg cli config msg = [Log e]"
    using handle_msg_logs_die_error [of msg cli reader e config] by blast
  have d: "json_Marshal w m = Inr b
        \<and> HttpPost u ''application/json'' b \<in> set (Send w m config)
        \<and> http_Post w u ''application/json'' b = Inl e \<longrightarrow>
        Log e \<in> set (Send w m config)"
    using Send_logs_failed_post [of w m b u config e] by blast
  from s l n st f1 f2 c1 c2 d show ?thesis by blast
qed

text \<open>
  A subscription with a nameless start event and a die event whose logs are unavailable,
  closed by an error, and a second subscription that delivers nothing.
\<close>

theorem error_channel_reopens_subscription_witness:
  "Status nameless_start = ''start'' \<and> makeStartMessage nameless_start = Inl ''no name'' \<and>
   main_loop (logs_client (Inl ''No such container'')) both_sinks
     [[MsgRecv nameless_start, MsgRecv web1_die, ErrRecv (Some ''unexpected EOF''),
       MsgRecv web1_start],
      []] =
   ([Subscribe, Log ''no name'', Log ''No such container'', Cancel, Log ''unexpected EOF'',
     Subscribe], Streaming)"
  using error_channel_reopens_subscription
    [where cli = "logs_client (Inl ''No such container'')" and config = both_sinks
      and msgs = "[nameless_start, web1_die]" and err = "Some ''unexpected EOF''"
      and rest = "[MsgRecv web1_start]" and subs = "[[]]" and msg = nameless_start
      and e = "''no name''"]
  by (simp add: start_def handle_msg_def makeStartMessage_def nameless_start_def web1_die_def
      event_of_def logs_client_def Start_def Die_def)

text \<open>
  The loops make no HTTP request themselves, and a payload that the classifier returns
  is answered by starting a goroutine.
\<close>

lemma start_no_HttpPost: "HttpPost u ct b \<notin> set (fst (start cli config items))"
  using stream_loop_actions [of "HttpPost u ct b" cli config items]
  by (auto simp: start_def split: prod.splits option.splits)

lemma main_loop_no_HttpPost: "HttpPost u ct b \<notin> set (fst (main_loop cli config subs))"
proof (induction subs)
  case Nil
  show ?case by simp
next
  case (Cons items subs)
  have "HttpPost u ct b \<notin> set (fst (start cli config items))"
    by (rule start_no_HttpPost)
  with Cons show ?case
    by (auto split: prod.splits option.splits)
qed

lemma handle_msg_start_payload:
  "Status msg = ''start'' \<Longrightarrow> makeStartMessage msg = Inr m \<Longrightarrow>
   handle_msg cli config msg = [Go m config]"
  by (simp add: handle_msg_def Start_def)

lemma handle_msg_die_payload:
  "Status msg = ''die'' \<Longrightarrow>
   ContainerLogs cli (ID msg) \<lparr>Since = ''30s'', ShowStdout = True, ShowStderr = True\<rparr>
     = Inr reader \<Longrightarrow>
   makeDieMessage msg reader = Inr m \<Longrightarrow> handle_msg cli config msg = [Go m config]"
  by (simp add: handle_msg_def Start_def Die_def)

text \<open>
  C9. For every event for which the classifier returns a payload (a start event, or a
  die event whose log reader was obtained), the only thing the watch loop does with
  the payload is to start a goroutine running \<open>Send\<close> on it; the loop then handles the
  events that follow. No POST is ever made by the streaming loop, by \<open>start\<close> or by the
  outer loop: delivery happens in the goroutines only, and the loops, which do not have
  the transport, cannot depend on how or when a delivery ends.
\<close>

theorem payload_handed_to_goroutine:
  assumes "Status msg = ''start'' \<and> makeStartMessage msg = Inr m
         \<or> Status msg = ''die''
           \<and> (\<exists>reader.
                ContainerLogs cli (ID msg)
                  \<lparr>Since = ''30s'', ShowStdout = True, ShowStderr = True\<rparr> = Inr reader
                \<and> makeDieMessage msg reader = Inr m)"
  shows "handle_msg cli config msg = [Go m config]
       \<and> stream_loop cli config (map MsgRecv before @ MsgRecv msg # rest) =
           (concat (map (handle_msg cli config) before) @ Go m config
              # fst (stream_loop cli config rest),
            snd (stream_loop cli config rest))
       \<and> (\<forall>u ct b. HttpPost u ct b \<notin> set (fst (stream_loop cli config items)))
       \<and> (\<forall>u ct b. HttpPost u ct b \<notin> set (fst (start cli config items)))
       \<and> (\<forall>u ct b. HttpPost u ct b \<notin> set (fst (main_loop cli config subs)))"
proof -
  have h: "handle_msg cli config msg = [Go m config]"
    using assms handle_msg_start_payload [of msg m cli config]
      handle_msg_die_payload [of msg cli _ m config]
    by blast
  have "stream_loop cli config (MsgRecv msg # rest) =
          (Go m config # fst (stream_loop cli config rest),
           snd (stream_loop cli config rest))"
    using h by (simp add: case_prod_unfold)
  then have l: "stream_loop cli config (map MsgRecv before @ MsgRecv msg # rest) =
           (concat (map (handle_msg cli config) before) @ Go m config
              # fst (stream_loop cli config rest),
            snd (stream_loop cli config rest))"
    by (simp add: stream_loop_msgs)
  have p1: "\<forall>u ct b. HttpPost u ct b \<notin> set (fst (stream_loop cli config items))"
    using stream_loop_actions [of _ cli config items] by blast
  have p2: "\<forall>u ct b. HttpPost u ct b \<notin> set (fst (start cli config items))"
    by (simp add: start_no_HttpPost)
  have p3: "\<forall>u ct b. HttpPost u ct b \<notin> set (fst (main_loop cli config subs))"
    by (simp add: main_loop_no_HttpPost)
  from h l p1 p2 p3 show ?thesis by blast
qed

text \<open>
  A start event, a die event with logs and another start event: three goroutines, in
  the order of the events, and the loop reaches the error that closes the stream.
\<close>

theorem payload_handed_to_goroutine_witness:
  "Status web1_die = ''die''
   \<and> ContainerLogs (logs_client (Inr (''oom-killed'', None))) (ID web1_die)
        \<lparr>Since = ''30s'', ShowStdout = True, ShowStderr = True\<rparr> = Inr (''oom-killed'', None)
   \<and> makeDieMessage web1_die (''oom-killed'', None) = Inr web1_died
   \<and> handle_msg (logs_client (Inr (''oom-killed'', None))) both_sinks web1_die =
       [Go web1_died both_sinks]
   \<and> stream_loop (logs_client (Inr (''oom-killed'', None))) both_sinks
        [MsgRecv web1_start, MsgRecv web1_die, MsgRecv web1_start, ErrRecv None] =
       ([Go web1_started both_sinks, Go web1_died both_sinks, Go web1_started both_sinks],
        Some None)"
proof -
  have h1: "Status web1_die = ''die''"
    by (simp add: web1_die_def event_of_def)
  have c: "ContainerLogs (logs_client (Inr (''oom-killed'', None))) (ID web1_die)
        \<lparr>Since = ''30s'', ShowStdout = True, ShowStderr = True\<rparr> = Inr (''oom-killed'', None)"
    by (simp add: logs_client_def)
  have d: "makeDieMessage web1_die (''oom-killed'', None) = Inr web1_died"
    by (simp add: makeDieMessage_def ReadAll_def web1_die_def web1_died_def event_of_def
        DieColor_def)
  have a: "Status web1_die = ''start'' \<and> makeStartMessage web1_die = Inr web1_died
         \<or> Status web1_die = ''die''
           \<and> (\<exists>reader.
                ContainerLogs (logs_client (Inr (''oom-killed'', None))) (ID web1_die)
                  \<lparr>Since = ''30s'', ShowStdout = True, ShowStderr = True\<rparr> = Inr reader
                \<and> makeDieMessage web1_die reader = Inr web1_died)"
    using h1 c d by blast
  have s: "handle_msg (logs_client (Inr (''oom-killed'', None))) both_sinks web1_start =
             [Go web1_started both_sinks]"
    by (simp add: handle_msg_def makeStartMessage_def web1_start_def web1_started_def
        event_of_def Start_def StartColor_def)
  show ?thesis
    using h1 c d s
      payload_handed_to_goroutine [OF a, of both_sinks "[web1_start]"
        "[MsgRecv web1_start, ErrRecv None]"]
    by (simp add: case_prod_unfold)
qed

subsection \<open>The dispatcher\<close>

text \<open>
  C10. \<open>post\<close> returns an error exactly when \<open>http.Post\<close> does. A response, whatever
  its status code, makes \<open>post\<close> return \<open>nil\<close>; and when the payload is encoded and the
  transport answers both endpoints, \<open>Send\<close> posts to each non-empty endpoint and writes
  nothing to the log.
\<close>

theorem post_ignores_status_code:
  "(http_Post w u ''application/json'' body = Inr resp \<longrightarrow>
      post w u body = ([HttpPost u ''application/json'' body], None))
   \<and> (snd (post w u body) = Some err \<longleftrightarrow> http_Post w u ''application/json'' body = Inl err)
   \<and> (json_Marshal w m = Inr b
       \<and> (SlackURL config = '''' \<or>
           (\<exists>r. http_Post w (SlackURL config) ''application/json'' b = Inr r))
       \<and> (DiscordURL config = '''' \<or>
           (\<exists>r. http_Post w (DiscordURL config) ''application/json'' b = Inr r)) \<longrightarrow>
         Send w m config =
           (if SlackURL config \<noteq> '''' then [HttpPost (SlackURL config) ''application/json'' b]
            else [])
           @ (if DiscordURL config \<noteq> '''' then [HttpPost (DiscordURL config) ''application/json'' b]
              else []))"
  by (auto simp: post_def Send_def split: sum.splits)

text \<open>
  Both endpoints answer with status 500: two POSTs and no log line.
\<close>

theorem post_ignores_status_code_witness:
  "http_Post (fake_world [] 500) ''http://slack.test/hook'' ''application/json'' ''{}'' =
     Inr \<lparr>StatusCode = 500\<rparr> \<and>
   http_Post (fake_world [] 500) ''http://discord.test/hook'' ''application/json'' ''{}'' =
     Inr \<lparr>StatusCode = 500\<rparr> \<and>
   post (fake_world [] 500) ''http://slack.test/hook'' ''{}'' =
     ([HttpPost ''http://slack.test/hook'' ''application/json'' ''{}''], None) \<and>
   Send (fake_world [] 500) web1_started both_sinks =
     [HttpPost ''http://slack.test/hook'' ''application/json'' ''{}'',
      HttpPost ''http://discord.test/hook'' ''application/json'' ''{}'']"
  using post_ignores_status_code
    [where w = "fake_world [] 500" and u = "''http://slack.test/hook''" and body = "''{}''"
      and resp = "\<lparr>StatusCode = 500\<rparr>" and m = web1_started and b = "''{}''"
      and config = both_sinks]
  by (simp add: fake_world_def both_sinks_def)

text \<open>
  After a failed POST to the Slack endpoint \<open>Send\<close> logs the error and returns.
\<close>

lemma Send_returns_after_slack_error:
  "json_Marshal w m = Inr b \<Longrightarrow> SlackURL config \<noteq> '''' \<Longrightarrow>
   http_Post w (SlackURL config) ''application/json'' b = Inl e \<Longrightarrow>
   Send w m config = [HttpPost (SlackURL config) ''application/json'' b, Log e]"
  by (simp add: Send_def post_def)

text \<open>
  C1. The specification asks for one delivery attempt per non-empty endpoint, with a
  failure at one endpoint not preventing the attempt at the other. Here both endpoints
  are configured, the Slack endpoint refuses the connection and the Discord endpoint
  would answer: \<open>Send\<close> posts to Slack, logs the error and returns. No POST to Discord
  is made.
\<close>

theorem Send_stops_after_slack_failure:
  "http_Post (fake_world [''http://slack.test/hook''] 200)
     ''http://discord.test/hook'' ''application/json'' ''{}'' = Inr \<lparr>StatusCode = 200\<rparr>
   \<and> Send (fake_world [''http://slack.test/hook''] 200) web1_started both_sinks =
       [HttpPost ''http://slack.test/hook'' ''application/json'' ''{}'',
        Log ''connection refused'']
   \<and> HttpPost ''http://discord.test/hook'' ''application/json'' ''{}''
       \<notin> set (Send (fake_world [''http://slack.test/hook''] 200) web1_started both_sinks)"
  by (simp add: Send_def post_def fake_world_def both_sinks_def)

subsection \<open>Startup\<close>

text \<open>
  C7. \<open>main\<close> exits with \<open>log.Fatal\<close> before it has constructed the Docker client
  (and so before any subscription) if and only if \<open>API_VERSION\<close> reads as empty, which
  is what \<open>os.Getenv\<close> returns for a variable that is not set, or \<open>SLACK_URL\<close> and
  \<open>DISCORD_URL\<close> both read as empty. With a non-empty \<open>API_VERSION\<close> and at least
  one non-empty endpoint, \<open>NewConfig\<close> accepts the configuration and \<open>main\<close> goes on to
  construct the client. The event source plays no part in this: the check is made once,
  at startup. (A failure to construct the client is a separate fatal exit, after the
  configuration has been accepted.)
\<close>

theorem startup_fails_iff:
  "((\<exists>msg. main getenv NewClientWithOpts subs = ([Fatal msg], Exited 1)) \<longleftrightarrow>
      (getenv ''API_VERSION'' = '''' \<or>
       (getenv ''SLACK_URL'' = '''' \<and> getenv ''DISCORD_URL'' = '''')))
   \<and> (getenv ''API_VERSION'' \<noteq> '''' \<and>
        (getenv ''SLACK_URL'' \<noteq> '''' \<or> getenv ''DISCORD_URL'' \<noteq> '''') \<longrightarrow>
          NewConfig getenv =
            Inr \<lparr>SlackURL = getenv ''SLACK_URL'', DiscordURL = getenv ''DISCORD_URL''\<rparr>
        \<and> (\<exists>as st. main getenv NewClientWithOpts subs =
              (NewClient (getenv ''API_VERSION'') # as, st)))"
  by (auto simp: main_def NewConfig_def SlackURLEnv_def DiscordURLEnv_def Let_def
      split: sum.splits prod.splits)

text \<open>
  One endpoint set: accepted. \<open>API_VERSION\<close> empty, or no endpoint set: fatal.
\<close>

theorem startup_fails_iff_witness:
  "env_of ''1.37'' ''http://slack.test/hook'' '''' ''API_VERSION'' \<noteq> '''' \<and>
   NewConfig (env_of ''1.37'' ''http://slack.test/hook'' '''') =
     Inr \<lparr>SlackURL = ''http://slack.test/hook'', DiscordURL = ''''\<rparr> \<and>
   \<not> (\<exists>msg. main (env_of ''1.37'' ''http://slack.test/hook'' '''')
          (\<lambda>v. Inr (logs_client (Inl ''No such container''))) [] = ([Fatal msg], Exited 1)) \<and>
   (\<exists>msg. main (env_of '''' ''http://slack.test/hook'' '''')
          (\<lambda>v. Inr (logs_client (Inl ''No such container''))) [] = ([Fatal msg], Exited 1)) \<and>
   (\<exists>msg. main (env_of ''1.37'' '''' '''')
          (\<lambda>v. Inr (logs_client (Inl ''No such container''))) [] = ([Fatal msg], Exited 1))"
  using
    startup_fails_iff [of "env_of ''1.37'' ''http://slack.test/hook'' ''''"
      "\<lambda>v. Inr (logs_client (Inl ''No such container''))" "[]"]
    startup_fails_iff [of "env_of '''' ''http://slack.test/hook'' ''''"
      "\<lambda>v. Inr (logs_client (Inl ''No such container''))" "[]"]
    startup_fails_iff [of "env_of ''1.37'' '''' ''''"
      "\<lambda>v. Inr (logs_client (Inl ''No such container''))" "[]"]
  by (simp add: env_of_def)

end
